theory Spec2Isabelle
  imports Complex_Main "HOL-Library.Multiset"
begin

section \<open>Core types and enums (domain/models/types.ts)\<close>

text \<open>
  The TypeScript enums become datatypes. Where two enums share a member name
  (\<open>INFRASTRUCTURE\<close>, \<open>MEDIUM\<close>, \<open>HIGH\<close>, \<open>LOW\<close>) the later one carries a prefix.
  A JavaScript \<open>number\<close> is modelled as an exact \<open>real\<close>: IEEE-754 rounding, infinities
  and NaN are outside the model. A \<open>Date\<close> is its \<open>getTime()\<close> value, an integer number
  of milliseconds. Strings are \<open>char list\<close>s; every string literal of the sources is ASCII.
\<close>

datatype EventType =
    REGULATION_CHANGE | ECONOMIC_INDICATOR | LABOR_MARKET | GEOPOLITICAL
  | INFRASTRUCTURE | MARKET_SHIFT | TECHNOLOGY | CURRENCY | DISASTER

datatype AffectedEntity =
    TECH_COMPANIES | LABOR_FORCE | CONSUMERS | INFRASTRUCTURE_PROVIDERS
  | FINANCIAL_SECTOR | GOVERNMENT | AE_ALL

datatype Industry = SAAS

datatype BusinessDriverType =
    SUBSCRIPTION_REVENUE | USAGE_REVENUE | SERVICES_REVENUE
  | LABOR_COSTS | INFRASTRUCTURE_COSTS | SALES_MARKETING | R_AND_D | ADMINISTRATIVE

datatype SensitivityFactor =
    SF_LABOR | SF_INFRASTRUCTURE | SF_FX | SF_REGULATION | SF_MARKET_DEMAND

datatype ImpactDirection = INCREASE | DECREASE | NEUTRAL

datatype ImpactMagnitude = LOW | MEDIUM | HIGH

datatype TimeHorizon = TH_SHORT | TH_MEDIUM | TH_LONG

text \<open>The string-literal union \<open>'HIGH' | 'MEDIUM' | 'LOW'\<close> of \<open>Assumption.impact\<close>.\<close>

datatype AssumptionImpact = AI_HIGH | AI_MEDIUM | AI_LOW

record CausalStep =
  st_step :: nat
  st_description :: string
  st_mechanism :: string
  st_confidence :: real

record Assumption =
  as_id :: string
  as_description :: string
  as_impact :: AssumptionImpact
  as_source :: "string option"

record WeightedDriver =
  wd_driver :: BusinessDriverType
  wd_weight :: real

record SensitivityConfig =
  sc_factor :: SensitivityFactor
  sc_sensitivity :: real

text \<open>\<open>class Event\<close> (domain/models/Event.ts) and \<open>class BusinessModel\<close>
  (domain/models/BusinessModel.ts): the fields.\<close>

record Event =
  ev_id :: string
  ev_eventType :: EventType
  ev_summary :: string
  ev_region :: string
  ev_timestamp :: int
  ev_affectedEntities :: "AffectedEntity list"
  ev_source :: string
  ev_sourceId :: "string option"
  ev_confidenceScore :: real
  ev_metadata :: "(string \<times> string) list option"
  ev_createdAt :: int

record BusinessModel =
  bm_id :: string
  bm_userId :: string
  bm_name :: string
  bm_industry :: Industry
  bm_revenueDrivers :: "WeightedDriver list"
  bm_costDrivers :: "WeightedDriver list"
  bm_sensitivities :: "SensitivityConfig list"
  bm_operatingRegions :: "string list"
  bm_customerRegions :: "string list"
  bm_active :: bool
  bm_createdAt :: int
  bm_updatedAt :: int


section \<open>The JavaScript built-ins the core calls\<close>

text \<open>\<open>x || d\<close> on numbers: the right operand is taken when the left one is falsy, that
  is when it is \<open>0\<close> (NaN is outside the model).\<close>

definition num_or :: "real \<Rightarrow> real \<Rightarrow> real" where
  "num_or x d = (if x = 0 then d else x)"

text \<open>\<open>String.prototype.toLowerCase\<close> on ASCII text.\<close>

definition toLowerChar :: "char \<Rightarrow> char" where
  "toLowerChar c =
     (let n = (of_char c :: nat) in if 65 \<le> n \<and> n \<le> 90 then char_of (n + 32) else c)"

definition toLowerCase :: "string \<Rightarrow> string" where
  "toLowerCase s = map toLowerChar s"

text \<open>\<open>String.prototype.includes\<close>: \<open>str_includes s sub\<close> is \<open>s.includes(sub)\<close>
  (\<open>includes\<close> itself is a reserved word of the theory language).\<close>

fun startsWith :: "string \<Rightarrow> string \<Rightarrow> bool" where
  "startsWith s [] = True"
| "startsWith [] (p # ps) = False"
| "startsWith (c # cs) (p # ps) = (c = p \<and> startsWith cs ps)"

fun str_includes :: "string \<Rightarrow> string \<Rightarrow> bool" where
  "str_includes [] sub = (sub = [])"
| "str_includes (c # cs) sub = (startsWith (c # cs) sub \<or> str_includes cs sub)"

text \<open>\<open>Array.prototype.join\<close>.\<close>

fun join :: "string \<Rightarrow> string list \<Rightarrow> string" where
  "join sep [] = []"
| "join sep [x] = x"
| "join sep (x # y # ys) = x @ sep @ join sep (y # ys)"

text \<open>Decimal rendering of an integer-valued number, as a template literal does it
  (below \<open>10^21\<close>, where JavaScript switches to exponent notation).\<close>

fun string_of_nat :: "nat \<Rightarrow> string" where
  "string_of_nat n =
     (if n < 10 then [char_of (48 + n)]
      else string_of_nat (n div 10) @ [char_of (48 + n mod 10)])"

declare string_of_nat.simps [simp del]

definition string_of_int :: "int \<Rightarrow> string" where
  "string_of_int i = (if i < 0 then CHR ''-'' # string_of_nat (nat (- i)) else string_of_nat (nat i))"

text \<open>\<open>x.toFixed(0)\<close>: the integer nearest to \<open>x\<close>, the larger one at a tie; a negative
  \<open>x\<close> is rendered as \<open>-\<close> followed by the rendering of \<open>-x\<close>, so \<open>(-0.4).toFixed(0)\<close> is
  \<open>-0\<close> (again below \<open>10^21\<close>).\<close>

definition toFixed0 :: "real \<Rightarrow> string" where
  "toFixed0 x =
     (if x < 0 then CHR ''-'' # string_of_nat (nat \<lfloor>- x + 1 / 2\<rfloor>)
      else string_of_nat (nat \<lfloor>x + 1 / 2\<rfloor>))"

text \<open>\<open>[...new Set(xs)]\<close>: the distinct elements in order of first occurrence.\<close>

definition Set_of :: "'a list \<Rightarrow> 'a list" where
  "Set_of xs = foldl (\<lambda>acc x. if x \<in> set acc then acc else acc @ [x]) [] xs"

text \<open>\<open>Date.now()\<close>. The wall clock is an input of the core: \<open>clk k\<close> is what the
  \<open>k\<close>-th call of \<open>Date.now()\<close> returns, and every function that reads the clock
  takes the number of reads made so far and returns the new count with its result.\<close>

type_synonym clock = "nat \<Rightarrow> int"

definition Date_now :: "clock \<Rightarrow> nat \<Rightarrow> int \<times> nat" where
  "Date_now clk k = (clk k, Suc k)"

text \<open>\<open>Array.prototype.sort(cmp)\<close>. The sort is stable (ECMAScript 2019); for a
  comparator that is a consistent ordering its result is the stable insertion sort.\<close>

fun insert_cmp :: "('a \<Rightarrow> 'a \<Rightarrow> real) \<Rightarrow> 'a \<Rightarrow> 'a list \<Rightarrow> 'a list" where
  "insert_cmp cmp x [] = [x]"
| "insert_cmp cmp x (y # ys) = (if cmp x y \<le> 0 then x # y # ys else y # insert_cmp cmp x ys)"

definition Array_sort :: "('a \<Rightarrow> 'a \<Rightarrow> real) \<Rightarrow> 'a list \<Rightarrow> 'a list" where
  "Array_sort cmp xs = foldr (insert_cmp cmp) xs []"


section \<open>Event methods (domain/models/Event.ts)\<close>

definition isRelevantToRegion :: "Event \<Rightarrow> string list \<Rightarrow> bool" where
  "isRelevantToRegion e regions = (ev_region e \<in> set regions \<or> ev_region e = ''GLOBAL'')"

definition isRecent :: "clock \<Rightarrow> nat \<Rightarrow> Event \<Rightarrow> real \<Rightarrow> bool \<times> nat" where
  "isRecent clk k e days =
     (let (now, k') = Date_now clk k;
          ageInDays = real_of_int (now - ev_timestamp e) / (1000 * 60 * 60 * 24)
      in (ageInDays \<le> days, k'))"

definition getAgeInDays :: "clock \<Rightarrow> nat \<Rightarrow> Event \<Rightarrow> int \<times> nat" where
  "getAgeInDays clk k e =
     (let (now, k') = Date_now clk k
      in (\<lfloor>real_of_int (now - ev_timestamp e) / (1000 * 60 * 60 * 24)\<rfloor>, k'))"


section \<open>BusinessModel methods (domain/models/BusinessModel.ts)\<close>

definition getDriverWeight :: "BusinessModel \<Rightarrow> BusinessDriverType \<Rightarrow> real" where
  "getDriverWeight bm driver =
     (let allDrivers = bm_revenueDrivers bm @ bm_costDrivers bm;
          found = find (\<lambda>d. wd_driver d = driver) allDrivers
      in case found of None \<Rightarrow> 0 | Some d \<Rightarrow> num_or (wd_weight d) 0)"

definition getSensitivity :: "BusinessModel \<Rightarrow> SensitivityFactor \<Rightarrow> real" where
  "getSensitivity bm factor =
     (let found = find (\<lambda>s. sc_factor s = factor) (bm_sensitivities bm)
      in case found of None \<Rightarrow> 0.5 | Some s \<Rightarrow> num_or (sc_sensitivity s) 0.5)"

definition hasRegionalExposure :: "BusinessModel \<Rightarrow> string \<Rightarrow> bool" where
  "hasRegionalExposure bm region =
     (region \<in> set (bm_operatingRegions bm) \<or> region \<in> set (bm_customerRegions bm)
      \<or> region = ''GLOBAL'')"

definition getAllRelevantRegions :: "BusinessModel \<Rightarrow> string list" where
  "getAllRelevantRegions bm = Set_of (bm_operatingRegions bm @ bm_customerRegions bm)"


section \<open>The rule catalog (domain/causal-mapping/rules.ts)\<close>

record CausalRule =
  cr_eventType :: EventType
  cr_affectedDrivers :: "BusinessDriverType list"
  cr_sensitivityFactor :: SensitivityFactor
  cr_defaultDirection :: ImpactDirection
  cr_timeHorizon :: TimeHorizon
  cr_getCausalPath :: "string \<Rightarrow> string \<Rightarrow> CausalStep list"

text \<open>\<open>CAUSAL_RULES\<close> is a \<open>Record<EventType, CausalRule>\<close>: an object literal with one
  entry for each member of the enum, here one equation for each constructor, in the
  order of the source.\<close>

fun CAUSAL_RULES :: "EventType \<Rightarrow> CausalRule" where
  "CAUSAL_RULES LABOR_MARKET =
     \<lparr>cr_eventType = LABOR_MARKET,
      cr_affectedDrivers = [LABOR_COSTS, R_AND_D, SALES_MARKETING],
      cr_sensitivityFactor = SF_LABOR,
      cr_defaultDirection = INCREASE,
      cr_timeHorizon = TH_MEDIUM,
      cr_getCausalPath = (\<lambda>event context.
         [\<lparr>st_step = 1,
           st_description = ''Labor market event occurs'',
           st_mechanism = event,
           st_confidence = 0.9\<rparr>,
          \<lparr>st_step = 2,
           st_description = ''Wage pressure affects hiring and retention costs'',
           st_mechanism = ''Competitive labor market forces businesses to raise wages to attract and retain talent.'',
           st_confidence = 0.85\<rparr>,
          \<lparr>st_step = 3,
           st_description = ''Increased labor costs flow through to P&L'',
           st_mechanism = ''Labor costs represent a significant portion of expenses. '' @ context,
           st_confidence = 0.8\<rparr>])\<rparr>"
| "CAUSAL_RULES INFRASTRUCTURE =
     \<lparr>cr_eventType = INFRASTRUCTURE,
      cr_affectedDrivers = [INFRASTRUCTURE_COSTS],
      cr_sensitivityFactor = SF_INFRASTRUCTURE,
      cr_defaultDirection = INCREASE,
      cr_timeHorizon = TH_SHORT,
      cr_getCausalPath = (\<lambda>event context.
         [\<lparr>st_step = 1,
           st_description = ''Infrastructure event occurs'',
           st_mechanism = event,
           st_confidence = 0.9\<rparr>,
          \<lparr>st_step = 2,
           st_description = ''Cloud or infrastructure pricing changes'',
           st_mechanism = ''Cloud providers adjust pricing based on energy costs, capacity, and market conditions.'',
           st_confidence = 0.85\<rparr>,
          \<lparr>st_step = 3,
           st_description = ''Changed costs flow through to next billing cycle'',
           st_mechanism = ''SaaS companies use cloud infrastructure on a pay-as-you-go basis. '' @ context,
           st_confidence = 0.9\<rparr>])\<rparr>"
| "CAUSAL_RULES REGULATION_CHANGE =
     \<lparr>cr_eventType = REGULATION_CHANGE,
      cr_affectedDrivers = [LABOR_COSTS, INFRASTRUCTURE_COSTS, ADMINISTRATIVE],
      cr_sensitivityFactor = SF_REGULATION,
      cr_defaultDirection = INCREASE,
      cr_timeHorizon = TH_MEDIUM,
      cr_getCausalPath = (\<lambda>event context.
         [\<lparr>st_step = 1,
           st_description = ''Regulatory change announced or enacted'',
           st_mechanism = event,
           st_confidence = 0.9\<rparr>,
          \<lparr>st_step = 2,
           st_description = ''Business must invest in compliance'',
           st_mechanism = ''New regulations require legal review, technical implementation, process changes, and ongoing monitoring.'',
           st_confidence = 0.8\<rparr>,
          \<lparr>st_step = 3,
           st_description = ''Compliance costs increase operating expenses'',
           st_mechanism = ''Regulatory compliance adds permanent overhead. '' @ context,
           st_confidence = 0.75\<rparr>])\<rparr>"
| "CAUSAL_RULES ECONOMIC_INDICATOR =
     \<lparr>cr_eventType = ECONOMIC_INDICATOR,
      cr_affectedDrivers = [SUBSCRIPTION_REVENUE, LABOR_COSTS, INFRASTRUCTURE_COSTS],
      cr_sensitivityFactor = SF_MARKET_DEMAND,
      cr_defaultDirection = NEUTRAL,
      cr_timeHorizon = TH_MEDIUM,
      cr_getCausalPath = (\<lambda>event context.
         [\<lparr>st_step = 1,
           st_description = ''Economic indicator changes'',
           st_mechanism = event,
           st_confidence = 0.95\<rparr>,
          \<lparr>st_step = 2,
           st_description = ''Affects customer spending and business investment'',
           st_mechanism = ''Macroeconomic conditions influence customer budgets and willingness to spend on software.'',
           st_confidence = 0.7\<rparr>,
          \<lparr>st_step = 3,
           st_description = ''Revenue and cost pressures adjust'',
           st_mechanism = ''Economic conditions affect both demand (revenue) and input costs. '' @ context,
           st_confidence = 0.65\<rparr>])\<rparr>"
| "CAUSAL_RULES CURRENCY =
     \<lparr>cr_eventType = CURRENCY,
      cr_affectedDrivers = [SUBSCRIPTION_REVENUE, LABOR_COSTS, INFRASTRUCTURE_COSTS],
      cr_sensitivityFactor = SF_FX,
      cr_defaultDirection = NEUTRAL,
      cr_timeHorizon = TH_SHORT,
      cr_getCausalPath = (\<lambda>event context.
         [\<lparr>st_step = 1,
           st_description = ''Foreign exchange rate changes'',
           st_mechanism = event,
           st_confidence = 0.95\<rparr>,
          \<lparr>st_step = 2,
           st_description = ''Translation effects on international operations'',
           st_mechanism = ''Foreign currency revenue and costs are translated to reporting currency at new rates.'',
           st_confidence = 0.9\<rparr>,
          \<lparr>st_step = 3,
           st_description = ''Net FX impact on financial results'',
           st_mechanism = ''FX affects both revenue (international customers) and costs (international operations). '' @ context,
           st_confidence = 0.85\<rparr>])\<rparr>"
| "CAUSAL_RULES GEOPOLITICAL =
     \<lparr>cr_eventType = GEOPOLITICAL,
      cr_affectedDrivers = [SUBSCRIPTION_REVENUE, SALES_MARKETING],
      cr_sensitivityFactor = SF_MARKET_DEMAND,
      cr_defaultDirection = DECREASE,
      cr_timeHorizon = TH_SHORT,
      cr_getCausalPath = (\<lambda>event context.
         [\<lparr>st_step = 1,
           st_description = ''Geopolitical event creates uncertainty'',
           st_mechanism = event,
           st_confidence = 0.8\<rparr>,
          \<lparr>st_step = 2,
           st_description = ''Market uncertainty reduces customer spending'',
           st_mechanism = ''Businesses delay purchases and reduce budgets during periods of geopolitical instability.'',
           st_confidence = 0.6\<rparr>,
          \<lparr>st_step = 3,
           st_description = ''Revenue growth slows'',
           st_mechanism = ''Reduced customer acquisition and potential churn. '' @ context,
           st_confidence = 0.5\<rparr>])\<rparr>"
| "CAUSAL_RULES MARKET_SHIFT =
     \<lparr>cr_eventType = MARKET_SHIFT,
      cr_affectedDrivers = [SUBSCRIPTION_REVENUE, SALES_MARKETING],
      cr_sensitivityFactor = SF_MARKET_DEMAND,
      cr_defaultDirection = NEUTRAL,
      cr_timeHorizon = TH_MEDIUM,
      cr_getCausalPath = (\<lambda>event context.
         [\<lparr>st_step = 1,
           st_description = ''Market dynamics change'',
           st_mechanism = event,
           st_confidence = 0.7\<rparr>,
          \<lparr>st_step = 2,
           st_description = ''Customer demand patterns shift'',
           st_mechanism = ''Market shifts affect customer needs, competitive landscape, and pricing power.'',
           st_confidence = 0.6\<rparr>,
          \<lparr>st_step = 3,
           st_description = ''Revenue and customer acquisition costs affected'',
           st_mechanism = ''Changed market conditions require business adaptation. '' @ context,
           st_confidence = 0.55\<rparr>])\<rparr>"
| "CAUSAL_RULES TECHNOLOGY =
     \<lparr>cr_eventType = TECHNOLOGY,
      cr_affectedDrivers = [R_AND_D, INFRASTRUCTURE_COSTS],
      cr_sensitivityFactor = SF_INFRASTRUCTURE,
      cr_defaultDirection = NEUTRAL,
      cr_timeHorizon = TH_LONG,
      cr_getCausalPath = (\<lambda>event context.
         [\<lparr>st_step = 1,
           st_description = ''Technology change occurs'',
           st_mechanism = event,
           st_confidence = 0.7\<rparr>,
          \<lparr>st_step = 2,
           st_description = ''May require technology stack adaptation'',
           st_mechanism = ''New technologies can create opportunities (efficiency) or threats (competitive pressure).'',
           st_confidence = 0.5\<rparr>,
          \<lparr>st_step = 3,
           st_description = ''R&D and infrastructure investments adjust'',
           st_mechanism = ''Technology evolution affects development priorities and infrastructure choices. '' @ context,
           st_confidence = 0.45\<rparr>])\<rparr>"
| "CAUSAL_RULES DISASTER =
     \<lparr>cr_eventType = DISASTER,
      cr_affectedDrivers = [INFRASTRUCTURE_COSTS, SUBSCRIPTION_REVENUE],
      cr_sensitivityFactor = SF_MARKET_DEMAND,
      cr_defaultDirection = NEUTRAL,
      cr_timeHorizon = TH_SHORT,
      cr_getCausalPath = (\<lambda>event context.
         [\<lparr>st_step = 1,
           st_description = ''Disaster event occurs'',
           st_mechanism = event,
           st_confidence = 0.9\<rparr>,
          \<lparr>st_step = 2,
           st_description = ''Regional disruption affects operations'',
           st_mechanism = ''Natural disasters disrupt infrastructure, workforce, and customer operations in affected regions.'',
           st_confidence = 0.7\<rparr>,
          \<lparr>st_step = 3,
           st_description = ''Business continuity and recovery costs'',
           st_mechanism = ''Impact depends on regional exposure. '' @ context,
           st_confidence = 0.6\<rparr>])\<rparr>"

definition getCausalRule :: "EventType \<Rightarrow> CausalRule" where
  "getCausalRule eventType = CAUSAL_RULES eventType"

definition isHighConfidenceRule :: "EventType \<Rightarrow> bool" where
  "isHighConfidenceRule eventType =
     (let highConfidenceTypes = [LABOR_MARKET, INFRASTRUCTURE, ECONOMIC_INDICATOR, CURRENCY]
      in eventType \<in> set highConfidenceTypes)"


section \<open>The assumption catalog (domain/causal-mapping/assumptions.ts)\<close>

text \<open>\<open>CORE_ASSUMPTIONS\<close> is an object literal keyed by string; \<open>CORE_ASSUMPTIONS[key]\<close>
  is \<open>map_of CORE_ASSUMPTIONS key\<close>, \<open>None\<close> standing for \<open>undefined\<close>.\<close>

definition CORE_ASSUMPTIONS :: "(string \<times> Assumption) list" where
  "CORE_ASSUMPTIONS =
    [(''LABOR_WAGES_AFFECT_COSTS'',
        \<lparr>as_id = ''LABOR_WAGES_AFFECT_COSTS'',
         as_description = ''Wage increases in the labor market directly increase labor costs for businesses.'',
         as_impact = AI_HIGH,
         as_source = Some ''Economic principle: labor as a cost component''\<rparr>),
     (''LABOR_COSTS_PROPORTIONAL'',
        \<lparr>as_id = ''LABOR_COSTS_PROPORTIONAL'',
         as_description = ''Labor cost changes are roughly proportional to the weight of labor in total costs.'',
         as_impact = AI_HIGH,
         as_source = Some ''Basic accounting: cost structure drives impact magnitude''\<rparr>),
     (''LABOR_CHANGES_GRADUAL'',
        \<lparr>as_id = ''LABOR_CHANGES_GRADUAL'',
         as_description = ''Labor market changes take 3-12 months to fully impact business costs.'',
         as_impact = AI_MEDIUM,
         as_source = Some ''Typical employment contract and hiring cycles''\<rparr>),
     (''INFRASTRUCTURE_COSTS_VARIABLE'',
        \<lparr>as_id = ''INFRASTRUCTURE_COSTS_VARIABLE'',
         as_description = ''Cloud and infrastructure costs are variable and adjust with usage and pricing.'',
         as_impact = AI_HIGH,
         as_source = Some ''SaaS industry standard: pay-as-you-go pricing models''\<rparr>),
     (''INFRASTRUCTURE_IMPACT_IMMEDIATE'',
        \<lparr>as_id = ''INFRASTRUCTURE_IMPACT_IMMEDIATE'',
         as_description = ''Infrastructure price changes affect costs within 0-3 months.'',
         as_impact = AI_MEDIUM,
         as_source = Some ''Cloud provider pricing updates apply to next billing cycle''\<rparr>),
     (''REGULATION_REQUIRES_COMPLIANCE'',
        \<lparr>as_id = ''REGULATION_REQUIRES_COMPLIANCE'',
         as_description = ''New regulations require businesses to invest in compliance measures.'',
         as_impact = AI_HIGH,
         as_source = Some ''Legal requirement: non-compliance risks fines and operations''\<rparr>),
     (''REGULATION_MEDIUM_TERM'',
        \<lparr>as_id = ''REGULATION_MEDIUM_TERM'',
         as_description = ''Regulatory impacts typically materialize over 3-12 months.'',
         as_impact = AI_MEDIUM,
         as_source = Some ''Typical grace periods and implementation timelines''\<rparr>),
     (''GDP_AFFECTS_DEMAND'',
        \<lparr>as_id = ''GDP_AFFECTS_DEMAND'',
         as_description = ''GDP growth/decline affects customer spending and demand for services.'',
         as_impact = AI_HIGH,
         as_source = Some ''Macroeconomic principle: GDP correlates with business activity''\<rparr>),
     (''INFLATION_AFFECTS_COSTS'',
        \<lparr>as_id = ''INFLATION_AFFECTS_COSTS'',
         as_description = ''Inflation increases costs across all categories (labor, infrastructure, etc.).'',
         as_impact = AI_HIGH,
         as_source = Some ''Monetary principle: purchasing power affects all prices''\<rparr>),
     (''INTEREST_RATES_AFFECT_GROWTH'',
        \<lparr>as_id = ''INTEREST_RATES_AFFECT_GROWTH'',
         as_description = ''Higher interest rates reduce customer spending and business investment.'',
         as_impact = AI_MEDIUM,
         as_source = Some ''Monetary policy: cost of capital affects growth''\<rparr>),
     (''FX_AFFECTS_INTERNATIONAL'',
        \<lparr>as_id = ''FX_AFFECTS_INTERNATIONAL'',
         as_description = ''Currency changes only affect businesses with international operations or customers.'',
         as_impact = AI_HIGH,
         as_source = Some ''Basic FX exposure: requires cross-border transactions''\<rparr>),
     (''FX_REVENUE_AND_COSTS'',
        \<lparr>as_id = ''FX_REVENUE_AND_COSTS'',
         as_description = ''Foreign exchange affects both revenue (if international customers) and costs (if international operations).'',
         as_impact = AI_MEDIUM,
         as_source = Some ''Accounting standard: FX translation affects both sides of P&L''\<rparr>),
     (''GEOPOLITICAL_CREATES_UNCERTAINTY'',
        \<lparr>as_id = ''GEOPOLITICAL_CREATES_UNCERTAINTY'',
         as_description = ''Geopolitical events create market uncertainty and reduce customer spending.'',
         as_impact = AI_MEDIUM,
         as_source = Some ''Behavioral economics: uncertainty reduces risk-taking''\<rparr>),
     (''DISASTER_REGIONAL_IMPACT'',
        \<lparr>as_id = ''DISASTER_REGIONAL_IMPACT'',
         as_description = ''Natural disasters primarily affect businesses in or dependent on the affected region.'',
         as_impact = AI_HIGH,
         as_source = Some ''Geographic constraint: physical disruption is localized''\<rparr>)]"

fun assumptionMap :: "EventType \<Rightarrow> string list" where
  "assumptionMap LABOR_MARKET =
     [''LABOR_WAGES_AFFECT_COSTS'', ''LABOR_COSTS_PROPORTIONAL'', ''LABOR_CHANGES_GRADUAL'']"
| "assumptionMap INFRASTRUCTURE =
     [''INFRASTRUCTURE_COSTS_VARIABLE'', ''INFRASTRUCTURE_IMPACT_IMMEDIATE'']"
| "assumptionMap REGULATION_CHANGE =
     [''REGULATION_REQUIRES_COMPLIANCE'', ''REGULATION_MEDIUM_TERM'']"
| "assumptionMap ECONOMIC_INDICATOR =
     [''GDP_AFFECTS_DEMAND'', ''INFLATION_AFFECTS_COSTS'', ''INTEREST_RATES_AFFECT_GROWTH'']"
| "assumptionMap CURRENCY = [''FX_AFFECTS_INTERNATIONAL'', ''FX_REVENUE_AND_COSTS'']"
| "assumptionMap GEOPOLITICAL = [''GEOPOLITICAL_CREATES_UNCERTAINTY'']"
| "assumptionMap DISASTER = [''DISASTER_REGIONAL_IMPACT'']"
| "assumptionMap MARKET_SHIFT = [''GDP_AFFECTS_DEMAND'']"
| "assumptionMap TECHNOLOGY = []"

text \<open>\<open>assumptionKeys.map((key) => CORE_ASSUMPTIONS[key]).filter(Boolean)\<close>: the keys
  that the catalog does not define are dropped.\<close>

definition getAssumptionsForEventType :: "EventType \<Rightarrow> Assumption list" where
  "getAssumptionsForEventType eventType =
     (let assumptionKeys = assumptionMap eventType
      in List.map_filter (map_of CORE_ASSUMPTIONS) assumptionKeys)"

record BusinessContext =
  hasInternationalOperations :: bool
  hasInternationalCustomers :: bool
  operatesInRegion :: bool

record AssumptionValidation =
  av_valid :: bool
  av_warnings :: "string list"

definition validateAssumptionsForBusiness ::
  "Assumption list \<Rightarrow> BusinessContext \<Rightarrow> AssumptionValidation" where
  "validateAssumptionsForBusiness assumptions businessContext =
     (let warnings = foldl (\<lambda>warnings assumption.
            (let warnings1 =
                   (if as_id assumption = ''FX_AFFECTS_INTERNATIONAL''
                       \<and> \<not> hasInternationalOperations businessContext
                       \<and> \<not> hasInternationalCustomers businessContext
                    then warnings @ [''FX impact may be minimal: business operates only domestically.'']
                    else warnings)
             in if as_id assumption = ''DISASTER_REGIONAL_IMPACT''
                   \<and> \<not> operatesInRegion businessContext
                then warnings1 @ [''Regional event may not affect business: no presence in affected region.'']
                else warnings1)) [] assumptions
      in \<lparr>av_valid = True, av_warnings = warnings\<rparr>)"


section \<open>The Insight-layer confidence rule (domain/models/Insight.ts)\<close>

definition calculateOverallConfidence :: "real \<Rightarrow> CausalStep list \<Rightarrow> real" where
  "calculateOverallConfidence eventConfidence causalPath =
     (if length causalPath = 0 then eventConfidence * 0.5
      else (let pathConfidence = foldl (\<lambda>acc step. acc * st_confidence step) 1.0 causalPath
            in eventConfidence * pathConfidence))"


section \<open>The causal mapper (domain/causal-mapping/mapper.ts)\<close>

record CausalMapping =
  cm_event :: Event
  cm_businessModel :: BusinessModel
  cm_affectedDrivers :: "BusinessDriverType list"
  cm_impactDirection :: ImpactDirection
  cm_impactMagnitude :: ImpactMagnitude
  cm_timeHorizon :: TimeHorizon
  cm_causalPath :: "CausalStep list"
  cm_assumptions :: "Assumption list"
  cm_confidenceScore :: real
  cm_confidenceRationale :: string
  cm_isRelevant :: bool
  cm_relevanceReason :: string

record Relevance =
  rel_isRelevant :: bool
  rel_reason :: string

text \<open>The string value of a \<open>BusinessDriverType\<close> member, as a template literal
  renders it.\<close>

fun BusinessDriverType_string :: "BusinessDriverType \<Rightarrow> string" where
  "BusinessDriverType_string SUBSCRIPTION_REVENUE = ''SUBSCRIPTION_REVENUE''"
| "BusinessDriverType_string USAGE_REVENUE = ''USAGE_REVENUE''"
| "BusinessDriverType_string SERVICES_REVENUE = ''SERVICES_REVENUE''"
| "BusinessDriverType_string LABOR_COSTS = ''LABOR_COSTS''"
| "BusinessDriverType_string INFRASTRUCTURE_COSTS = ''INFRASTRUCTURE_COSTS''"
| "BusinessDriverType_string SALES_MARKETING = ''SALES_MARKETING''"
| "BusinessDriverType_string R_AND_D = ''R_AND_D''"
| "BusinessDriverType_string ADMINISTRATIVE = ''ADMINISTRATIVE''"

definition checkRelevance :: "clock \<Rightarrow> nat \<Rightarrow> Event \<Rightarrow> BusinessModel \<Rightarrow> Relevance \<times> nat" where
  "checkRelevance clk k event businessModel =
     (if \<not> isRelevantToRegion event (getAllRelevantRegions businessModel) then
        (\<lparr>rel_isRelevant = False,
          rel_reason = ''Event in '' @ ev_region event
            @ '' does not affect business operating in ''
            @ join '', '' (getAllRelevantRegions businessModel)\<rparr>, k)
      else
        (let (recent, k1) = isRecent clk k event 90 in
         if \<not> recent then
           (let (age, k2) = getAgeInDays clk k1 event in
            (\<lparr>rel_isRelevant = False,
              rel_reason = ''Event is '' @ string_of_int age
                @ '' days old and likely no longer relevant''\<rparr>, k2))
         else if ev_confidenceScore event < 0.3 then
           (\<lparr>rel_isRelevant = False,
             rel_reason = ''Event has very low confidence score and may not be reliable''\<rparr>, k1)
         else
           (\<lparr>rel_isRelevant = True,
             rel_reason = ''Event is geographically relevant, recent, and from reliable source''\<rparr>, k1)))"

definition buildBusinessContext :: "BusinessModel \<Rightarrow> BusinessDriverType list \<Rightarrow> string" where
  "buildBusinessContext businessModel affectedDrivers =
     (let contextParts = foldl (\<lambda>contextParts driver.
            (let weight = getDriverWeight businessModel driver
             in if weight > 0 then
                  (let percentage = toFixed0 (weight * 100)
                   in contextParts @ [BusinessDriverType_string driver @ '' represents ''
                        @ percentage @ ''% of business structure''])
                else contextParts)) [] affectedDrivers
      in join ''. '' contextParts)"

definition determineImpactDirection :: "Event \<Rightarrow> CausalRule \<Rightarrow> ImpactDirection" where
  "determineImpactDirection event rule =
     (let summary = toLowerCase (ev_summary event) in
      if str_includes summary ''increase'' \<or> str_includes summary ''rise''
         \<or> str_includes summary ''growth'' \<or> str_includes summary ''up''
      then INCREASE
      else if str_includes summary ''decrease'' \<or> str_includes summary ''decline''
         \<or> str_includes summary ''fall'' \<or> str_includes summary ''down''
      then DECREASE
      else cr_defaultDirection rule)"

definition calculateImpactMagnitude ::
  "Event \<Rightarrow> BusinessModel \<Rightarrow> BusinessDriverType list \<Rightarrow> SensitivityFactor \<Rightarrow> ImpactMagnitude" where
  "calculateImpactMagnitude event businessModel affectedDrivers sensitivityFactor =
     (let totalWeight = foldl (\<lambda>totalWeight driver.
            totalWeight + getDriverWeight businessModel driver) 0 affectedDrivers;
          sensitivity = getSensitivity businessModel sensitivityFactor;
          rawMagnitude = totalWeight * sensitivity * ev_confidenceScore event
      in if rawMagnitude > 0.05 then HIGH
         else if rawMagnitude > 0.02 then MEDIUM
         else LOW)"

definition calculateConfidence ::
  "Event \<Rightarrow> CausalStep list \<Rightarrow> BusinessModel \<Rightarrow> SensitivityFactor \<Rightarrow> nat \<Rightarrow> real" where
  "calculateConfidence event causalPath businessModel sensitivityFactor assumptionCount =
     (let confidence = ev_confidenceScore event;
          pathConfidence = foldl (\<lambda>acc step. acc * st_confidence step) 1.0 causalPath;
          confidence = confidence * pathConfidence;
          confidence = (if isHighConfidenceRule (ev_eventType event)
                        then confidence * 1.0 else confidence * 0.9);
          assumptionPenalty = 0.95 ^ assumptionCount;
          confidence = confidence * assumptionPenalty;
          sensitivity = getSensitivity businessModel sensitivityFactor;
          confidence = (if sensitivity > 0.7 then confidence * 1.1 else confidence)
      in max 0 (min 1 confidence))"

definition generateConfidenceRationale ::
  "Event \<Rightarrow> CausalStep list \<Rightarrow> Assumption list \<Rightarrow> string list \<Rightarrow> string" where
  "generateConfidenceRationale event causalPath assumptions warnings =
     (let parts = [];
          parts = (if ev_confidenceScore event \<ge> 0.8 then parts @ [''Event from highly reliable source'']
                   else if ev_confidenceScore event \<ge> 0.6 then parts @ [''Event from moderately reliable source'']
                   else parts @ [''Event from uncertain or unverified source'']);
          parts = (if isHighConfidenceRule (ev_eventType event)
                   then parts @ [''well-established causal relationship'']
                   else parts @ [''uncertain or indirect causal relationship'']);
          parts = (if length causalPath \<le> 2 then parts @ [''direct impact'']
                   else parts @ [string_of_nat (length causalPath) @ ''-step causal chain'']);
          parts = (if length assumptions > 0 then
                     (let highImpact = length (filter (\<lambda>a. as_impact a = AI_HIGH) assumptions)
                      in if highImpact > 0
                         then parts @ [string_of_nat highImpact @ '' critical assumption(s)'']
                         else parts)
                   else parts);
          parts = (if length warnings > 0
                   then parts @ [string_of_nat (length warnings) @ '' caveat(s)'']
                   else parts)
      in join ''; '' parts @ ''.'')"

text \<open>\<open>mapEventToBusiness\<close> is declared to return \<open>CausalMapping | null\<close>; \<open>None\<close> is
  \<open>null\<close>.\<close>

definition mapEventToBusiness ::
  "clock \<Rightarrow> nat \<Rightarrow> Event \<Rightarrow> BusinessModel \<Rightarrow> CausalMapping option \<times> nat" where
  "mapEventToBusiness clk k event businessModel =
     (let (relevance, k') = checkRelevance clk k event businessModel in
      if \<not> rel_isRelevant relevance then
        (Some \<lparr>cm_event = event,
               cm_businessModel = businessModel,
               cm_affectedDrivers = [],
               cm_impactDirection = NEUTRAL,
               cm_impactMagnitude = LOW,
               cm_timeHorizon = TH_SHORT,
               cm_causalPath = [],
               cm_assumptions = [],
               cm_confidenceScore = 0,
               cm_confidenceRationale = rel_reason relevance,
               cm_isRelevant = False,
               cm_relevanceReason = rel_reason relevance\<rparr>, k')
      else
        (let rule = getCausalRule (ev_eventType event);
             businessContext = buildBusinessContext businessModel (cr_affectedDrivers rule);
             causalPath = cr_getCausalPath rule (ev_summary event) businessContext;
             assumptions = getAssumptionsForEventType (ev_eventType event);
             assumptionValidation = validateAssumptionsForBusiness assumptions
               \<lparr>hasInternationalOperations =
                   list_ex (\<lambda>r. r \<noteq> ''US'' \<or> length (bm_operatingRegions businessModel) > 1)
                     (bm_operatingRegions businessModel),
                 hasInternationalCustomers =
                   list_ex (\<lambda>r. r \<noteq> ''US'' \<or> length (bm_customerRegions businessModel) > 1)
                     (bm_customerRegions businessModel),
                 operatesInRegion = hasRegionalExposure businessModel (ev_region event)\<rparr>;
             impactDirection = determineImpactDirection event rule;
             impactMagnitude = calculateImpactMagnitude event businessModel
               (cr_affectedDrivers rule) (cr_sensitivityFactor rule);
             confidenceScore = calculateConfidence event causalPath businessModel
               (cr_sensitivityFactor rule) (length assumptions);
             confidenceRationale = generateConfidenceRationale event causalPath assumptions
               (av_warnings assumptionValidation)
         in (Some \<lparr>cm_event = event,
                   cm_businessModel = businessModel,
                   cm_affectedDrivers = cr_affectedDrivers rule,
                   cm_impactDirection = impactDirection,
                   cm_impactMagnitude = impactMagnitude,
                   cm_timeHorizon = cr_timeHorizon rule,
                   cm_causalPath = causalPath,
                   cm_assumptions = assumptions,
                   cm_confidenceScore = confidenceScore,
                   cm_confidenceRationale = confidenceRationale,
                   cm_isRelevant = True,
                   cm_relevanceReason = rel_reason relevance\<rparr>, k')))"

fun getMagnitudeWeight :: "ImpactMagnitude \<Rightarrow> real" where
  "getMagnitudeWeight HIGH = 3"
| "getMagnitudeWeight MEDIUM = 2"
| "getMagnitudeWeight LOW = 1"

text \<open>The \<open>for\<close> loop of \<open>batchMapEventsToBusiness\<close>: \<open>mappings\<close> is the array built so
  far, \<open>mapping && mapping.isRelevant\<close> the test before each \<open>push\<close>.\<close>

fun batchLoop ::
  "clock \<Rightarrow> nat \<Rightarrow> BusinessModel \<Rightarrow> CausalMapping list \<Rightarrow> Event list \<Rightarrow> CausalMapping list \<times> nat" where
  "batchLoop clk k businessModel mappings [] = (mappings, k)"
| "batchLoop clk k businessModel mappings (event # events) =
     (let (mapping, k') = mapEventToBusiness clk k event businessModel
      in batchLoop clk k' businessModel
           (case mapping of
              None \<Rightarrow> mappings
            | Some m \<Rightarrow> if cm_isRelevant m then mappings @ [m] else mappings)
           events)"

definition batchMapEventsToBusiness ::
  "clock \<Rightarrow> nat \<Rightarrow> Event list \<Rightarrow> BusinessModel \<Rightarrow> CausalMapping list \<times> nat" where
  "batchMapEventsToBusiness clk k events businessModel =
     (let (mappings, k') = batchLoop clk k businessModel [] events
      in (Array_sort (\<lambda>a b.
            (let scoreA = cm_confidenceScore a * getMagnitudeWeight (cm_impactMagnitude a);
                 scoreB = cm_confidenceScore b * getMagnitudeWeight (cm_impactMagnitude b)
             in scoreB - scoreA)) mappings, k'))"


section \<open>Example inputs\<close>

text \<open>Scenario A of the specification: a labour-market event in the US with source
  confidence 0.85, and a SaaS business with the weights and sensitivities of the SaaS
  template, operating in and selling to US and EU. The event happened at time 0.\<close>

definition scenarioA_event :: Event where
  "scenarioA_event =
     \<lparr>ev_id = ''event-123'', ev_eventType = LABOR_MARKET,
      ev_summary = ''Tech sector wages increased 8%'', ev_region = ''US'',
      ev_timestamp = 0, ev_affectedEntities = [TECH_COMPANIES, LABOR_FORCE],
      ev_source = ''RSS'', ev_sourceId = Some ''source-123'', ev_confidenceScore = 0.85,
      ev_metadata = None, ev_createdAt = 0\<rparr>"

definition saas_business :: BusinessModel where
  "saas_business =
     \<lparr>bm_id = ''bm-1'', bm_userId = ''user-1'', bm_name = ''My SaaS Business'',
      bm_industry = SAAS,
      bm_revenueDrivers =
        [\<lparr>wd_driver = SUBSCRIPTION_REVENUE, wd_weight = 0.85\<rparr>,
         \<lparr>wd_driver = USAGE_REVENUE, wd_weight = 0.10\<rparr>,
         \<lparr>wd_driver = SERVICES_REVENUE, wd_weight = 0.05\<rparr>],
      bm_costDrivers =
        [\<lparr>wd_driver = LABOR_COSTS, wd_weight = 0.40\<rparr>,
         \<lparr>wd_driver = INFRASTRUCTURE_COSTS, wd_weight = 0.15\<rparr>,
         \<lparr>wd_driver = SALES_MARKETING, wd_weight = 0.30\<rparr>,
         \<lparr>wd_driver = R_AND_D, wd_weight = 0.10\<rparr>,
         \<lparr>wd_driver = ADMINISTRATIVE, wd_weight = 0.05\<rparr>],
      bm_sensitivities =
        [\<lparr>sc_factor = SF_LABOR, sc_sensitivity = 0.8\<rparr>,
         \<lparr>sc_factor = SF_INFRASTRUCTURE, sc_sensitivity = 0.7\<rparr>,
         \<lparr>sc_factor = SF_FX, sc_sensitivity = 0.4\<rparr>,
         \<lparr>sc_factor = SF_REGULATION, sc_sensitivity = 0.6\<rparr>,
         \<lparr>sc_factor = SF_MARKET_DEMAND, sc_sensitivity = 0.7\<rparr>],
      bm_operatingRegions = [''US'', ''EU''], bm_customerRegions = [''US'', ''EU''],
      bm_active = True, bm_createdAt = 0, bm_updatedAt = 0\<rparr>"

text \<open>Scenario B: the same business with APAC as its only region.\<close>

definition apac_business :: BusinessModel where
  "apac_business = saas_business\<lparr>bm_operatingRegions := [''APAC''], bm_customerRegions := [''APAC'']\<rparr>"

text \<open>Three clocks: one that stands at day 89 after the event, one at day 91, and one
  that starts at day 10 and advances by a millisecond with every reading.\<close>

definition clock_day89 :: clock where
  "clock_day89 k = 89 * 86400000"

definition clock_day91 :: clock where
  "clock_day91 k = 91 * 86400000"

definition clock_day10 :: clock where
  "clock_day10 k = 10 * 86400000 + int k"

text \<open>A business with a single lever of weight \<open>w\<close> and no configured sensitivity, an
  event of confidence 1, a business whose labour sensitivity is configured as 0, an event
  whose summary holds an upper-case increase token and a decrease token.\<close>

definition boundary_business :: "real \<Rightarrow> BusinessModel" where
  "boundary_business w =
     saas_business\<lparr>bm_revenueDrivers := [],
       bm_costDrivers := [\<lparr>wd_driver = LABOR_COSTS, wd_weight = w\<rparr>],
       bm_sensitivities := []\<rparr>"

definition certain_event :: Event where
  "certain_event = scenarioA_event\<lparr>ev_confidenceScore := 1\<rparr>"

definition zero_labor_business :: BusinessModel where
  "zero_labor_business =
     saas_business\<lparr>bm_sensitivities := [\<lparr>sc_factor = SF_LABOR, sc_sensitivity = 0\<rparr>]\<rparr>"

definition mixed_event :: Event where
  "mixed_event = scenarioA_event\<lparr>ev_eventType := GEOPOLITICAL,
     ev_summary := ''Shipping costs UP as demand goes down''\<rparr>"

text \<open>A business dominated by labour costs, and a batch of four events for it: an
  infrastructure event (magnitude LOW for this business), an event in a region the business
  has no part in, a regulation event (MEDIUM) and a labour-market event (HIGH).\<close>

definition ranking_business :: BusinessModel where
  "ranking_business =
     saas_business\<lparr>
       bm_revenueDrivers := [\<lparr>wd_driver = SUBSCRIPTION_REVENUE, wd_weight = 1\<rparr>],
       bm_costDrivers :=
         [\<lparr>wd_driver = LABOR_COSTS, wd_weight = 0.80\<rparr>,
          \<lparr>wd_driver = INFRASTRUCTURE_COSTS, wd_weight = 0.05\<rparr>,
          \<lparr>wd_driver = ADMINISTRATIVE, wd_weight = 0.15\<rparr>],
       bm_sensitivities :=
         [\<lparr>sc_factor = SF_LABOR, sc_sensitivity = 0.8\<rparr>,
          \<lparr>sc_factor = SF_INFRASTRUCTURE, sc_sensitivity = 0.4\<rparr>,
          \<lparr>sc_factor = SF_REGULATION, sc_sensitivity = 0.1\<rparr>]\<rparr>"

definition batch_events :: "Event list" where
  "batch_events =
     [scenarioA_event\<lparr>ev_id := ''event-1'', ev_eventType := INFRASTRUCTURE,
        ev_summary := ''Cloud provider revises pricing'', ev_confidenceScore := 0.5\<rparr>,
      scenarioA_event\<lparr>ev_id := ''event-2'', ev_region := ''JP''\<rparr>,
      scenarioA_event\<lparr>ev_id := ''event-3'', ev_eventType := REGULATION_CHANGE,
        ev_summary := ''New data residency law enacted'', ev_confidenceScore := 0.4\<rparr>,
      scenarioA_event\<lparr>ev_id := ''event-4'', ev_confidenceScore := 0.35\<rparr>]"

text \<open>Specification side of the sensitivity lookup (\<open>sensitivity map from factor to [0,1]
  with default 0.5 for unset factors\<close>): the value configured for the factor when the
  factor is present in the map, whatever that value, and 0.5 when it is unset.\<close>

definition configuredSensitivity :: "BusinessModel \<Rightarrow> SensitivityFactor \<Rightarrow> real" where
  "configuredSensitivity bm factor =
     (case find (\<lambda>s. sc_factor s = factor) (bm_sensitivities bm) of
        None \<Rightarrow> 0.5
      | Some s \<Rightarrow> sc_sensitivity s)"

text \<open>The members of \<open>EventType\<close>, in the order of the enum.\<close>

definition allEventTypes :: "EventType list" where
  "allEventTypes = [REGULATION_CHANGE, ECONOMIC_INDICATOR, LABOR_MARKET, GEOPOLITICAL,
     INFRASTRUCTURE, MARKET_SHIFT, TECHNOLOGY, CURRENCY, DISASTER]"

text \<open>Specification side of the batch entry point (\<open>map every event independently\<close>):
  the result of \<open>mapEventToBusiness\<close> for each event in turn, every call continuing
  with the clock where the call before left it.\<close>

fun mapEveryEvent :: "clock \<Rightarrow> nat \<Rightarrow> BusinessModel \<Rightarrow> Event list \<Rightarrow> CausalMapping option list" where
  "mapEveryEvent clk k businessModel [] = []"
| "mapEveryEvent clk k businessModel (event # events) =
     (let (mapping, k') = mapEventToBusiness clk k event businessModel
      in mapping # mapEveryEvent clk k' businessModel events)"


section \<open>Facts about the built-ins\<close>

lemma foldl_times_prod_list:
  "foldl (\<lambda>acc step. acc * f step) (a::real) xs = a * prod_list (map f xs)"
  by (induction xs arbitrary: a) (simp_all add: mult.assoc)

lemma foldl_plus_sum_list:
  "foldl (\<lambda>total d. total + f d) (a::real) xs = a + sum_list (map f xs)"
  by (induction xs arbitrary: a) (simp_all add: add.assoc)

text \<open>\<open>str_includes\<close> decides the substring relation.\<close>

lemma startsWith_iff: "startsWith s p \<longleftrightarrow> (\<exists>q. s = p @ q)"
  by (induction s p rule: startsWith.induct) auto

lemma str_includes_iff: "str_includes s sub \<longleftrightarrow> (\<exists>p q. s = p @ sub @ q)"
proof (induction s)
  case Nil
  then show ?case by auto
next
  case (Cons c cs)
  show ?case
  proof
    assume "str_includes (c # cs) sub"
    then consider "startsWith (c # cs) sub" | "str_includes cs sub" by auto
    then show "\<exists>p q. c # cs = p @ sub @ q"
    proof cases
      case 1
      then obtain q where "c # cs = sub @ q" by (auto simp: startsWith_iff)
      then have "c # cs = [] @ sub @ q" by simp
      then show ?thesis by blast
    next
      case 2
      then obtain p q where "cs = p @ sub @ q" using Cons.IH by blast
      then have "c # cs = (c # p) @ sub @ q" by simp
      then show ?thesis by blast
    qed
  next
    assume "\<exists>p q. c # cs = p @ sub @ q"
    then obtain p q where pq: "c # cs = p @ sub @ q" by blast
    show "str_includes (c # cs) sub"
    proof (cases p)
      case Nil
      with pq have "startsWith (c # cs) sub" by (auto simp: startsWith_iff)
      then show ?thesis by simp
    next
      case (Cons a p')
      with pq have "cs = p' @ sub @ q" by simp
      then have "str_includes cs sub" using Cons.IH by blast
      then show ?thesis by simp
    qed
  qed
qed

lemma set_Set_of_aux:
  "set (foldl (\<lambda>acc x. if x \<in> set acc then acc else acc @ [x]) acc0 xs) = set acc0 \<union> set xs"
  by (induction xs arbitrary: acc0) auto

lemma set_Set_of: "set (Set_of xs) = set xs"
  by (simp add: Set_of_def set_Set_of_aux)

text \<open>The sort returns a permutation of its input, ordered by the comparator's score.\<close>

lemma mset_insert_cmp: "mset (insert_cmp cmp x ys) = add_mset x (mset ys)"
  by (induction ys) simp_all

lemma mset_Array_sort: "mset (Array_sort cmp xs) = mset xs"
  by (induction xs) (simp_all add: Array_sort_def mset_insert_cmp)

lemma set_insert_cmp: "set (insert_cmp cmp x ys) = insert x (set ys)"
  by (induction ys) auto

lemma sorted_insert_cmp:
  assumes "\<And>a b. cmp a b = f b - f a"
      and "sorted_wrt (\<lambda>a b. f a \<ge> f b) ys"
  shows "sorted_wrt (\<lambda>a b. f a \<ge> f b) (insert_cmp cmp x ys)"
  using assms(2)
proof (induction ys)
  case Nil
  then show ?case by simp
next
  case (Cons y ys)
  show ?case
  proof (cases "cmp x y \<le> 0")
    case True
    then have "f y \<le> f x" by (simp add: assms(1))
    moreover have "\<forall>z\<in>set ys. f z \<le> f y" using Cons.prems by simp
    ultimately show ?thesis using True Cons.prems by auto
  next
    case False
    then have "f x \<le> f y" by (simp add: assms(1))
    with False Cons show ?thesis by (auto simp: set_insert_cmp)
  qed
qed

lemma sorted_Array_sort:
  assumes "\<And>a b. cmp a b = f b - f a"
  shows "sorted_wrt (\<lambda>a b. f a \<ge> f b) (Array_sort cmp xs)"
proof (induction xs)
  case Nil
  then show ?case by (simp add: Array_sort_def)
next
  case (Cons x xs)
  have "Array_sort cmp (x # xs) = insert_cmp cmp x (Array_sort cmp xs)"
    by (simp add: Array_sort_def)
  with Cons show ?case by (simp add: sorted_insert_cmp [OF assms])
qed

lemma sorted_distinct_strict:
  fixes f :: "'a \<Rightarrow> real"
  assumes "sorted_wrt (\<lambda>a b. f a \<ge> f b) xs" and "distinct (map f xs)"
  shows "sorted_wrt (\<lambda>a b. f a > f b) xs"
  using assms
proof (induction xs)
  case Nil
  then show ?case by simp
next
  case (Cons x xs)
  have "f z < f x" if "z \<in> set xs" for z
  proof -
    from that Cons.prems(1) have "f z \<le> f x" by simp
    moreover from that Cons.prems(2) have "f z \<noteq> f x" by (auto simp: image_iff)
    ultimately show ?thesis by simp
  qed
  with Cons show ?case by simp
qed

lemma floor_days: "\<lfloor>real_of_int a / 86400000\<rfloor> = a div 86400000"
  using floor_divide_of_int_eq [of a 86400000, where ?'a = real] by simp


section \<open>Facts about the example inputs\<close>

lemma scenarioA_fields:
  "ev_region scenarioA_event = ''US''"
  "ev_timestamp scenarioA_event = 0"
  "ev_eventType scenarioA_event = LABOR_MARKET"
  "ev_summary scenarioA_event = ''Tech sector wages increased 8%''"
  by (simp_all add: scenarioA_event_def)

lemma scenarioA_facts:
  "ev_confidenceScore scenarioA_event = 0.85"
  "isHighConfidenceRule (ev_eventType scenarioA_event)"
  "getSensitivity saas_business SF_LABOR = 0.8"
  by (simp_all add: scenarioA_event_def isHighConfidenceRule_def getSensitivity_def
        saas_business_def num_or_def)

lemma saas_business_regions:
  "bm_operatingRegions saas_business = [''US'', ''EU'']"
  "bm_customerRegions saas_business = [''US'', ''EU'']"
  by (simp_all add: saas_business_def)

lemma string_of_int_91: "string_of_int ((91 * 86400000) div 86400000) = ''91''"
  by code_simp

lemma toLowerCase_mixed:
  "toLowerCase ''Shipping costs UP as demand goes down'' = ''shipping costs up as demand goes down''"
  by code_simp

lemma labor_assumptions_length: "length (getAssumptionsForEventType LABOR_MARKET) = 3"
  by (simp add: getAssumptionsForEventType_def List.map_filter_def CORE_ASSUMPTIONS_def)


section \<open>The rule catalog\<close>

text \<open>
  C10. For each of the nine event categories the catalog holds one rule, filed under
  its own category, and its \<open>getCausalPath\<close>, applied to any event summary and any
  business context, returns three steps numbered 1, 2, 3 in this order; every step
  confidence lies in (0, 1], indeed in [0.45, 0.95]; the first step's mechanism is the
  event summary itself; and the step confidences do not depend on the two texts.
\<close>

theorem getCausalPath_shape:
  fixes t :: EventType and eventSummary businessContext :: string
  defines "path \<equiv> cr_getCausalPath (getCausalRule t) eventSummary businessContext"
  shows "t \<in> set allEventTypes \<and> length allEventTypes = 9 \<and> distinct allEventTypes
       \<and> cr_eventType (getCausalRule t) = t
       \<and> length path = 3
       \<and> map st_step path = [1, 2, 3]
       \<and> list_all (\<lambda>s. 0 < st_confidence s \<and> st_confidence s \<le> 1) path
       \<and> list_all (\<lambda>s. 0.45 \<le> st_confidence s \<and> st_confidence s \<le> 0.95) path
       \<and> st_mechanism (path ! 0) = eventSummary
       \<and> map st_confidence path =
           map st_confidence (cr_getCausalPath (getCausalRule t) eventSummary' businessContext')"
  unfolding path_def getCausalRule_def allEventTypes_def
  by (cases t) simp_all

theorem getCausalPath_shape_labor:
  "map st_step (cr_getCausalPath (getCausalRule LABOR_MARKET) ''Tech wages increase by 15%''
       ''Labor costs represent 40% of business structure'') = [1, 2, 3]
   \<and> st_mechanism (cr_getCausalPath (getCausalRule LABOR_MARKET) ''Tech wages increase by 15%''
       ''Labor costs represent 40% of business structure'' ! 0) = ''Tech wages increase by 15%''
   \<and> map st_confidence (cr_getCausalPath (getCausalRule LABOR_MARKET) ''Tech wages increase by 15%''
       ''Labor costs represent 40% of business structure'') = [0.9, 0.85, 0.8]"
  using getCausalPath_shape [of LABOR_MARKET "''Tech wages increase by 15%''"
      "''Labor costs represent 40% of business structure''" "[]" "[]"]
  by (simp add: getCausalRule_def)


section \<open>Sensitivities\<close>

lemma getSensitivity_eq:
  "getSensitivity bm factor =
     (case find (\<lambda>s. sc_factor s = factor) (bm_sensitivities bm) of
        None \<Rightarrow> 0.5
      | Some s \<Rightarrow> if sc_sensitivity s = 0 then 0.5 else sc_sensitivity s)"
  by (simp add: getSensitivity_def num_or_def split: option.split)

lemma getSensitivity_high_iff:
  "getSensitivity bm factor > 0.7 \<longleftrightarrow>
     (\<exists>s. find (\<lambda>s. sc_factor s = factor) (bm_sensitivities bm) = Some s
          \<and> sc_sensitivity s > 0.7)"
  by (simp add: getSensitivity_eq split: option.split)

text \<open>
  C8. \<open>getSensitivity\<close> is claimed to return the configured value of a factor that is
  present, whatever the value, 0 included. For a business whose labour sensitivity is
  configured as 0 the lookup finds the entry and the function nevertheless returns the
  default 0.5: \<open>found?.sensitivity || 0.5\<close> takes a configured 0 for a missing value.
\<close>

theorem getSensitivity_zero_is_default:
  "find (\<lambda>s. sc_factor s = SF_LABOR) (bm_sensitivities zero_labor_business)
     = Some \<lparr>sc_factor = SF_LABOR, sc_sensitivity = 0\<rparr>
   \<and> getSensitivity zero_labor_business SF_LABOR = 0.5"
  by (simp add: getSensitivity_def zero_labor_business_def num_or_def)


section \<open>The relevance filter\<close>

lemma isRecent_eq:
  "isRecent clk k e 90 = (clk k - ev_timestamp e \<le> 90 * 86400000, Suc k)"
proof -
  have "real_of_int (clk k - ev_timestamp e) / 86400000 \<le> 90
          \<longleftrightarrow> real_of_int (clk k - ev_timestamp e) \<le> real_of_int (90 * 86400000)"
    by (simp add: field_simps)
  also have "\<dots> \<longleftrightarrow> clk k - ev_timestamp e \<le> 90 * 86400000"
    by (simp only: of_int_le_iff)
  finally show ?thesis
    by (simp add: isRecent_def Date_now_def)
qed

lemma getAgeInDays_eq:
  "getAgeInDays clk k e = ((clk k - ev_timestamp e) div 86400000, Suc k)"
  by (simp add: getAgeInDays_def Date_now_def floor_days del: of_int_diff)

lemma isRelevantToRegion_all:
  "isRelevantToRegion e (getAllRelevantRegions bm) \<longleftrightarrow>
     ev_region e = ''GLOBAL''
     \<or> ev_region e \<in> set (bm_operatingRegions bm) \<union> set (bm_customerRegions bm)"
  by (auto simp: isRelevantToRegion_def getAllRelevantRegions_def set_Set_of)

lemma checkRelevance_eq:
  "checkRelevance clk k e bm =
     (if \<not> (ev_region e = ''GLOBAL''
             \<or> ev_region e \<in> set (bm_operatingRegions bm) \<union> set (bm_customerRegions bm)) then
        (\<lparr>rel_isRelevant = False,
          rel_reason = ''Event in '' @ ev_region e @ '' does not affect business operating in ''
            @ join '', '' (getAllRelevantRegions bm)\<rparr>, k)
      else if \<not> clk k - ev_timestamp e \<le> 90 * 86400000 then
        (\<lparr>rel_isRelevant = False,
          rel_reason = ''Event is '' @ string_of_int ((clk (Suc k) - ev_timestamp e) div 86400000)
            @ '' days old and likely no longer relevant''\<rparr>, Suc (Suc k))
      else if ev_confidenceScore e < 0.3 then
        (\<lparr>rel_isRelevant = False,
          rel_reason = ''Event has very low confidence score and may not be reliable''\<rparr>, Suc k)
      else
        (\<lparr>rel_isRelevant = True,
          rel_reason = ''Event is geographically relevant, recent, and from reliable source''\<rparr>, Suc k))"
  unfolding checkRelevance_def isRelevantToRegion_all isRecent_eq getAgeInDays_eq
  by (simp add: Let_def)

text \<open>
  C3. The pair is relevant exactly when the event's region is GLOBAL or one of the
  business's operating or customer regions, the event's age at the clock reading of the
  recency check is at most 90 days, and its confidence is at least 0.3. The checks run in
  this order and the first one that fails decides the reason (and ends the function: after
  a failed geographic check the clock is not read at all; the age in the recency message
  comes from a second reading). The function has no failing branch. An event older than 90
  days is never relevant; one exactly 89 days old that passes the other two checks is.
\<close>

theorem checkRelevance_three_checks:
  fixes clk :: clock and k :: nat and e :: Event and bm :: BusinessModel
  defines "geo \<equiv> ev_region e = ''GLOBAL''
             \<or> ev_region e \<in> set (bm_operatingRegions bm) \<union> set (bm_customerRegions bm)"
  defines "age \<equiv> clk k - ev_timestamp e"
  defines "recent \<equiv> age \<le> 90 * 86400000"
  defines "reliable \<equiv> ev_confidenceScore e \<ge> 0.3"
  defines "r \<equiv> fst (checkRelevance clk k e bm)"
  shows "(rel_isRelevant r \<longleftrightarrow> geo \<and> recent \<and> reliable)
       \<and> rel_reason r =
           (if \<not> geo then
              ''Event in '' @ ev_region e @ '' does not affect business operating in ''
                @ join '', '' (getAllRelevantRegions bm)
            else if \<not> recent then
              ''Event is '' @ string_of_int ((clk (Suc k) - ev_timestamp e) div 86400000)
                @ '' days old and likely no longer relevant''
            else if \<not> reliable then
              ''Event has very low confidence score and may not be reliable''
            else ''Event is geographically relevant, recent, and from reliable source'')
       \<and> snd (checkRelevance clk k e bm) =
           (if \<not> geo then k else if \<not> recent then Suc (Suc k) else Suc k)
       \<and> (age > 90 * 86400000 \<longrightarrow> \<not> rel_isRelevant r)
       \<and> (geo \<and> reliable \<and> age = 89 * 86400000 \<longrightarrow> rel_isRelevant r)"
  unfolding r_def geo_def recent_def reliable_def age_def checkRelevance_eq
  by (simp add: not_less)

theorem checkRelevance_scenarioA:
  "rel_isRelevant (fst (checkRelevance clock_day89 0 scenarioA_event saas_business))
   \<and> fst (checkRelevance clock_day91 0 scenarioA_event saas_business) =
       \<lparr>rel_isRelevant = False,
        rel_reason = ''Event is 91 days old and likely no longer relevant''\<rparr>"
proof -
  have "rel_isRelevant (fst (checkRelevance clock_day89 0 scenarioA_event saas_business))"
    using checkRelevance_three_checks
      [where clk = clock_day89 and k = 0 and e = scenarioA_event and bm = saas_business]
    by (simp add: scenarioA_fields scenarioA_facts saas_business_regions clock_day89_def)
  moreover have "\<not> rel_isRelevant (fst (checkRelevance clock_day91 0 scenarioA_event saas_business))
    \<and> rel_reason (fst (checkRelevance clock_day91 0 scenarioA_event saas_business))
        = ''Event is 91 days old and likely no longer relevant''"
    using checkRelevance_three_checks
      [where clk = clock_day91 and k = 0 and e = scenarioA_event and bm = saas_business]
      string_of_int_91
    by (simp add: scenarioA_fields scenarioA_facts saas_business_regions clock_day91_def)
  ultimately show ?thesis
    by (cases "fst (checkRelevance clock_day91 0 scenarioA_event saas_business)") simp
qed


section \<open>Direction, magnitude and confidence\<close>

text \<open>
  C6. With \<open>summary\<close> the lower-cased event summary: if \<open>summary\<close> contains one of
  increase, rise, growth, up as a substring the direction is INCREASE; otherwise, if it
  contains one of decrease, decline, fall, down, the direction is DECREASE; otherwise it is
  the rule's default direction. A summary with tokens of both classes gives INCREASE.
\<close>

theorem determineImpactDirection_keywords:
  fixes e :: Event and rule :: CausalRule
  defines "summary \<equiv> toLowerCase (ev_summary e)"
  defines "inc \<equiv> (\<exists>p q. summary = p @ ''increase'' @ q) \<or> (\<exists>p q. summary = p @ ''rise'' @ q)
                \<or> (\<exists>p q. summary = p @ ''growth'' @ q) \<or> (\<exists>p q. summary = p @ ''up'' @ q)"
  defines "dec \<equiv> (\<exists>p q. summary = p @ ''decrease'' @ q) \<or> (\<exists>p q. summary = p @ ''decline'' @ q)
                \<or> (\<exists>p q. summary = p @ ''fall'' @ q) \<or> (\<exists>p q. summary = p @ ''down'' @ q)"
  shows "determineImpactDirection e rule =
           (if inc then INCREASE else if dec then DECREASE else cr_defaultDirection rule)"
  unfolding determineImpactDirection_def inc_def dec_def summary_def Let_def str_includes_iff
  by simp

theorem determineImpactDirection_both_classes:
  "determineImpactDirection mixed_event (getCausalRule GEOPOLITICAL) = INCREASE
   \<and> cr_defaultDirection (getCausalRule GEOPOLITICAL) = DECREASE"
proof -
  have "ev_summary mixed_event = ''Shipping costs UP as demand goes down''"
    by (simp add: mixed_event_def)
  then have "toLowerCase (ev_summary mixed_event) = ''shipping costs '' @ ''up'' @ '' as demand goes down''"
    by (simp add: toLowerCase_mixed)
  then have "\<exists>p q. toLowerCase (ev_summary mixed_event) = p @ ''up'' @ q"
    by blast
  then show ?thesis
    using determineImpactDirection_keywords [of mixed_event "getCausalRule GEOPOLITICAL"]
    by (simp add: getCausalRule_def)
qed

text \<open>The buckets in terms of what \<open>getSensitivity\<close> returns: with rawMagnitude the sum
  of \<open>getDriverWeight\<close> over the affected levers, times \<open>getSensitivity\<close>, times the event
  confidence, the magnitude is HIGH exactly when rawMagnitude > 0.05, MEDIUM exactly when
  0.02 < rawMagnitude \<le> 0.05, and LOW exactly when rawMagnitude \<le> 0.02.\<close>

lemma calculateImpactMagnitude_buckets:
  "let rawMagnitude = sum_list (map (getDriverWeight bm) affectedDrivers)
                        * getSensitivity bm sensitivityFactor * ev_confidenceScore e;
       magnitude = calculateImpactMagnitude e bm affectedDrivers sensitivityFactor
   in (magnitude = HIGH \<longleftrightarrow> rawMagnitude > 0.05)
    \<and> (magnitude = MEDIUM \<longleftrightarrow> 0.02 < rawMagnitude \<and> rawMagnitude \<le> 0.05)
    \<and> (magnitude = LOW \<longleftrightarrow> rawMagnitude \<le> 0.02)"
  by (simp add: calculateImpactMagnitude_def foldl_plus_sum_list Let_def)

text \<open>At the two boundaries: a raw magnitude of exactly 0.05 is MEDIUM, one of exactly
  0.02 is LOW.\<close>

lemma calculateImpactMagnitude_boundary:
  "calculateImpactMagnitude certain_event (boundary_business 0.1) [LABOR_COSTS] SF_LABOR = MEDIUM
   \<and> calculateImpactMagnitude certain_event (boundary_business 0.04) [LABOR_COSTS] SF_LABOR = LOW"
proof -
  have w: "getDriverWeight (boundary_business x) LABOR_COSTS = num_or x 0" for x
    by (simp add: getDriverWeight_def boundary_business_def)
  have s: "getSensitivity (boundary_business x) SF_LABOR = 0.5" for x
    by (simp add: getSensitivity_def boundary_business_def)
  have c: "ev_confidenceScore certain_event = 1"
    by (simp add: certain_event_def)
  show ?thesis
    using calculateImpactMagnitude_buckets [of "boundary_business 0.1" "[LABOR_COSTS]" SF_LABOR certain_event]
      calculateImpactMagnitude_buckets [of "boundary_business 0.04" "[LABOR_COSTS]" SF_LABOR certain_event]
    by (simp add: Let_def w s c num_or_def)
qed

text \<open>\<open>getSensitivity\<close> returns the business's sensitivity unless that is configured as 0,
  so for every business whose sensitivity to the factor is not 0 the buckets are those of
  the business's own sensitivity.\<close>

lemma getSensitivity_configured:
  "configuredSensitivity bm factor \<noteq> 0 \<Longrightarrow>
     getSensitivity bm factor = configuredSensitivity bm factor"
  by (auto simp: getSensitivity_eq configuredSensitivity_def split: option.splits)

lemma calculateImpactMagnitude_buckets_configured:
  assumes "configuredSensitivity bm sensitivityFactor \<noteq> 0"
  shows "let rawMagnitude = sum_list (map (getDriverWeight bm) affectedDrivers)
                        * configuredSensitivity bm sensitivityFactor * ev_confidenceScore e;
       magnitude = calculateImpactMagnitude e bm affectedDrivers sensitivityFactor
   in (magnitude = HIGH \<longleftrightarrow> rawMagnitude > 0.05)
    \<and> (magnitude = MEDIUM \<longleftrightarrow> 0.02 < rawMagnitude \<and> rawMagnitude \<le> 0.05)
    \<and> (magnitude = LOW \<longleftrightarrow> rawMagnitude \<le> 0.02)"
  using calculateImpactMagnitude_buckets [of bm affectedDrivers sensitivityFactor e]
  by (simp add: getSensitivity_configured [OF assms])

text \<open>
  C2. The magnitude is claimed to be LOW whenever rawMagnitude, the sum of the business's
  lever weights over the rule's affected levers, times the business's sensitivity to the
  rule's sensitivity factor, times the event confidence, is at most 0.02. For the
  labour-market event of Scenario A and the business whose labour sensitivity is configured
  as 0, rawMagnitude is 0.8 \<times> 0 \<times> 0.85 = 0, and the code classifies the impact as HIGH:
  it multiplies by the 0.5 that \<open>getSensitivity\<close> returns for a configured 0 (the defect
  of C8), which gives 0.34.
\<close>

theorem calculateImpactMagnitude_zero_sensitivity:
  "sum_list (map (getDriverWeight zero_labor_business)
       (cr_affectedDrivers (getCausalRule LABOR_MARKET)))
     * configuredSensitivity zero_labor_business (cr_sensitivityFactor (getCausalRule LABOR_MARKET))
     * ev_confidenceScore scenarioA_event = 0
   \<and> sum_list (map (getDriverWeight zero_labor_business)
       (cr_affectedDrivers (getCausalRule LABOR_MARKET)))
     * getSensitivity zero_labor_business (cr_sensitivityFactor (getCausalRule LABOR_MARKET))
     * ev_confidenceScore scenarioA_event = 0.34
   \<and> calculateImpactMagnitude scenarioA_event zero_labor_business
       (cr_affectedDrivers (getCausalRule LABOR_MARKET))
       (cr_sensitivityFactor (getCausalRule LABOR_MARKET)) = HIGH"
proof -
  have rule: "cr_affectedDrivers (getCausalRule LABOR_MARKET) = [LABOR_COSTS, R_AND_D, SALES_MARKETING]"
    "cr_sensitivityFactor (getCausalRule LABOR_MARKET) = SF_LABOR"
    by (simp_all add: getCausalRule_def)
  have weights: "sum_list (map (getDriverWeight zero_labor_business)
      [LABOR_COSTS, R_AND_D, SALES_MARKETING]) = 0.8"
    by (simp add: getDriverWeight_def zero_labor_business_def saas_business_def num_or_def)
  have configured: "configuredSensitivity zero_labor_business SF_LABOR = 0"
    by (simp add: configuredSensitivity_def zero_labor_business_def)
  have returned: "getSensitivity zero_labor_business SF_LABOR = 0.5"
    by (simp add: getSensitivity_eq zero_labor_business_def)
  have raw: "sum_list (map (getDriverWeight zero_labor_business)
        [LABOR_COSTS, R_AND_D, SALES_MARKETING])
      * getSensitivity zero_labor_business SF_LABOR * ev_confidenceScore scenarioA_event = 0.34"
    unfolding weights returned by (simp add: scenarioA_facts)
  have "calculateImpactMagnitude scenarioA_event zero_labor_business
      [LABOR_COSTS, R_AND_D, SALES_MARKETING] SF_LABOR = HIGH"
    using calculateImpactMagnitude_buckets
      [of zero_labor_business "[LABOR_COSTS, R_AND_D, SALES_MARKETING]" SF_LABOR scenarioA_event]
    unfolding Let_def raw by simp
  with raw configured show ?thesis
    unfolding rule by simp
qed

lemma calculateConfidence_formula:
  "calculateConfidence e causalPath bm sensitivityFactor assumptionCount =
     max 0 (min 1 (ev_confidenceScore e
       * prod_list (map st_confidence causalPath)
       * (if isHighConfidenceRule (ev_eventType e) then 1.0 else 0.9)
       * 0.95 ^ assumptionCount
       * (if getSensitivity bm sensitivityFactor > 0.7 then 1.1 else 1.0)))"
  by (simp add: calculateConfidence_def foldl_times_prod_list Let_def)

lemma calculateConfidence_bounds:
  "0 \<le> calculateConfidence e causalPath bm sensitivityFactor assumptionCount"
  "calculateConfidence e causalPath bm sensitivityFactor assumptionCount \<le> 1"
  by (simp_all add: calculateConfidence_formula)

text \<open>
  C9, as the code has it. In the mapper's aggregator an empty causal path contributes the
  empty product 1 and no penalty: the aggregated confidence is the event confidence times
  the rule-quality factor, the assumption penalty and the sensitivity bonus, clamped to
  [0, 1]. The flat 0.5 penalty for an empty path belongs to the Insight layer's
  \<open>calculateOverallConfidence\<close> alone.
\<close>

theorem calculateConfidence_empty_path_no_penalty:
  "calculateConfidence e [] bm sensitivityFactor assumptionCount =
     max 0 (min 1 (ev_confidenceScore e
       * (if isHighConfidenceRule (ev_eventType e) then 1.0 else 0.9)
       * 0.95 ^ assumptionCount
       * (if getSensitivity bm sensitivityFactor > 0.7 then 1.1 else 1.0)))
   \<and> calculateOverallConfidence (ev_confidenceScore e) [] = ev_confidenceScore e * 0.5"
  by (simp add: calculateConfidence_formula calculateOverallConfidence_def)

theorem calculateConfidence_empty_path_example:
  "calculateConfidence scenarioA_event [] saas_business SF_LABOR 0 = 0.935
   \<and> calculateOverallConfidence (ev_confidenceScore scenarioA_event) [] = 0.425"
  using calculateConfidence_empty_path_no_penalty [of scenarioA_event saas_business SF_LABOR 0]
  by (simp add: scenarioA_facts)

text \<open>C9 as stated (an empty path halves the mapper's aggregated confidence) fails for the
  event and business of Scenario A: the aggregator returns 0.935, the claimed value is
  0.4675.\<close>

theorem calculateConfidence_empty_path_not_halved:
  "calculateConfidence scenarioA_event [] saas_business SF_LABOR 0
     \<noteq> max 0 (min 1 (ev_confidenceScore scenarioA_event * 0.5
           * (if isHighConfidenceRule (ev_eventType scenarioA_event) then 1.0 else 0.9)
           * 0.95 ^ (0::nat)
           * (if getSensitivity saas_business SF_LABOR > 0.7 then 1.1 else 1.0)))"
  by (simp add: calculateConfidence_formula scenarioA_facts)


section \<open>The mapping orchestrator\<close>

lemma mapEventToBusiness_irrelevant:
  assumes "\<not> rel_isRelevant (fst (checkRelevance clk k e bm))"
  shows "fst (mapEventToBusiness clk k e bm) =
           Some \<lparr>cm_event = e,
                 cm_businessModel = bm,
                 cm_affectedDrivers = [],
                 cm_impactDirection = NEUTRAL,
                 cm_impactMagnitude = LOW,
                 cm_timeHorizon = TH_SHORT,
                 cm_causalPath = [],
                 cm_assumptions = [],
                 cm_confidenceScore = 0,
                 cm_confidenceRationale = rel_reason (fst (checkRelevance clk k e bm)),
                 cm_isRelevant = False,
                 cm_relevanceReason = rel_reason (fst (checkRelevance clk k e bm))\<rparr>"
  using assms by (simp add: mapEventToBusiness_def split_beta)

lemma mapEventToBusiness_relevant:
  assumes "rel_isRelevant (fst (checkRelevance clk k e bm))"
  shows "\<exists>m. fst (mapEventToBusiness clk k e bm) = Some m
           \<and> cm_isRelevant m
           \<and> cm_causalPath m = cr_getCausalPath (getCausalRule (ev_eventType e)) (ev_summary e)
                 (buildBusinessContext bm (cr_affectedDrivers (getCausalRule (ev_eventType e))))
           \<and> cm_assumptions m = getAssumptionsForEventType (ev_eventType e)
           \<and> cm_confidenceScore m = calculateConfidence e (cm_causalPath m) bm
                 (cr_sensitivityFactor (getCausalRule (ev_eventType e))) (length (cm_assumptions m))
           \<and> cm_impactMagnitude m = calculateImpactMagnitude e bm
                 (cr_affectedDrivers (getCausalRule (ev_eventType e)))
                 (cr_sensitivityFactor (getCausalRule (ev_eventType e)))
           \<and> cm_impactDirection m = determineImpactDirection e (getCausalRule (ev_eventType e))"
  using assms by (simp add: mapEventToBusiness_def split_beta Let_def)

lemma mapEventToBusiness_snd:
  "snd (mapEventToBusiness clk k e bm) = snd (checkRelevance clk k e bm)"
  by (simp add: mapEventToBusiness_def split_beta Let_def)

lemma mapEventToBusiness_cong:
  assumes "fst (checkRelevance clk k e bm) = fst (checkRelevance clk' k' e bm)"
  shows "fst (mapEventToBusiness clk k e bm) = fst (mapEventToBusiness clk' k' e bm)"
  using assms by (simp add: mapEventToBusiness_def split_beta Let_def)

lemma checkRelevance_apac:
  "fst (checkRelevance clk k scenarioA_event apac_business) =
     \<lparr>rel_isRelevant = False,
      rel_reason = ''Event in US does not affect business operating in APAC''\<rparr>"
  by (simp add: checkRelevance_eq scenarioA_fields apac_business_def getAllRelevantRegions_def
        Set_of_def)

lemma relevance_day89_scenarioA:
  "fst (checkRelevance clock_day89 k scenarioA_event saas_business) =
     \<lparr>rel_isRelevant = True,
      rel_reason = ''Event is geographically relevant, recent, and from reliable source''\<rparr>"
  by (simp add: checkRelevance_eq scenarioA_fields scenarioA_facts saas_business_regions
        clock_day89_def)

text \<open>
  C4. \<open>mapEventToBusiness\<close> never returns \<open>null\<close>, and when the relevance filter fails it
  returns the canonical null mapping: direction NEUTRAL, magnitude LOW, confidence 0, no
  causal path, no assumptions, \<open>isRelevant = false\<close>, and the filter's reason both as
  rationale and as relevance reason. No step of the function can throw.
\<close>

theorem mapEventToBusiness_null_mapping:
  "fst (mapEventToBusiness clk k e bm) \<noteq> None
   \<and> (\<not> rel_isRelevant (fst (checkRelevance clk k e bm)) \<longrightarrow>
        fst (mapEventToBusiness clk k e bm) =
          Some \<lparr>cm_event = e,
                cm_businessModel = bm,
                cm_affectedDrivers = [],
                cm_impactDirection = NEUTRAL,
                cm_impactMagnitude = LOW,
                cm_timeHorizon = TH_SHORT,
                cm_causalPath = [],
                cm_assumptions = [],
                cm_confidenceScore = 0,
                cm_confidenceRationale = rel_reason (fst (checkRelevance clk k e bm)),
                cm_isRelevant = False,
                cm_relevanceReason = rel_reason (fst (checkRelevance clk k e bm))\<rparr>)"
proof (cases "rel_isRelevant (fst (checkRelevance clk k e bm))")
  case True
  then show ?thesis using mapEventToBusiness_relevant [of clk k e bm] by auto
next
  case False
  then show ?thesis using mapEventToBusiness_irrelevant [of clk k e bm] by simp
qed

theorem mapEventToBusiness_scenarioB:
  "fst (mapEventToBusiness clock_day10 0 scenarioA_event apac_business) =
     Some \<lparr>cm_event = scenarioA_event,
           cm_businessModel = apac_business,
           cm_affectedDrivers = [],
           cm_impactDirection = NEUTRAL,
           cm_impactMagnitude = LOW,
           cm_timeHorizon = TH_SHORT,
           cm_causalPath = [],
           cm_assumptions = [],
           cm_confidenceScore = 0,
           cm_confidenceRationale = ''Event in US does not affect business operating in APAC'',
           cm_isRelevant = False,
           cm_relevanceReason = ''Event in US does not affect business operating in APAC''\<rparr>"
  using mapEventToBusiness_null_mapping [of clock_day10 0 scenarioA_event apac_business]
  by (simp add: checkRelevance_apac)

text \<open>
  C1. Every call returns a mapping whose confidence score lies in [0, 1]; and when the
  relevance filter passes, the score is the event confidence, times the product of the
  confidences of the steps of the mapping's causal path, times 1.0 for a high-confidence
  category and 0.9 otherwise, times 0.95 to the power of the number of the mapping's
  assumptions, times 1.1 if the business's sensitivity to the rule's factor exceeds 0.7
  and 1.0 otherwise, clamped to [0, 1].
\<close>

theorem mapEventToBusiness_confidence:
  "\<exists>m. fst (mapEventToBusiness clk k e bm) = Some m
      \<and> 0 \<le> cm_confidenceScore m \<and> cm_confidenceScore m \<le> 1
      \<and> (rel_isRelevant (fst (checkRelevance clk k e bm)) \<longrightarrow>
           cm_confidenceScore m =
             max 0 (min 1 (ev_confidenceScore e
               * prod_list (map st_confidence (cm_causalPath m))
               * (if isHighConfidenceRule (ev_eventType e) then 1.0 else 0.9)
               * 0.95 ^ length (cm_assumptions m)
               * (if getSensitivity bm (cr_sensitivityFactor (getCausalRule (ev_eventType e))) > 0.7
                  then 1.1 else 1.0))))"
proof (cases "rel_isRelevant (fst (checkRelevance clk k e bm))")
  case True
  then obtain m where m: "fst (mapEventToBusiness clk k e bm) = Some m"
    and score: "cm_confidenceScore m = calculateConfidence e (cm_causalPath m) bm
                 (cr_sensitivityFactor (getCausalRule (ev_eventType e))) (length (cm_assumptions m))"
    using mapEventToBusiness_relevant [of clk k e bm] by blast
  have "0 \<le> cm_confidenceScore m" "cm_confidenceScore m \<le> 1"
    unfolding score by (rule calculateConfidence_bounds)+
  moreover have "cm_confidenceScore m =
             max 0 (min 1 (ev_confidenceScore e
               * prod_list (map st_confidence (cm_causalPath m))
               * (if isHighConfidenceRule (ev_eventType e) then 1.0 else 0.9)
               * 0.95 ^ length (cm_assumptions m)
               * (if getSensitivity bm (cr_sensitivityFactor (getCausalRule (ev_eventType e))) > 0.7
                  then 1.1 else 1.0)))"
    unfolding score by (rule calculateConfidence_formula)
  ultimately show ?thesis using m by blast
next
  case False
  then show ?thesis using mapEventToBusiness_irrelevant [of clk k e bm] by simp
qed

theorem scenarioA_confidence_value:
  "\<exists>m. fst (mapEventToBusiness clock_day89 0 scenarioA_event saas_business) = Some m
      \<and> cm_confidenceScore m = 0.4906071225"
proof -
  obtain m where m: "fst (mapEventToBusiness clock_day89 0 scenarioA_event saas_business) = Some m"
    and score: "cm_confidenceScore m =
             max 0 (min 1 (ev_confidenceScore scenarioA_event
               * prod_list (map st_confidence (cm_causalPath m))
               * (if isHighConfidenceRule (ev_eventType scenarioA_event) then 1.0 else 0.9)
               * 0.95 ^ length (cm_assumptions m)
               * (if getSensitivity saas_business
                       (cr_sensitivityFactor (getCausalRule (ev_eventType scenarioA_event))) > 0.7
                  then 1.1 else 1.0)))"
    using mapEventToBusiness_confidence [of clock_day89 0 scenarioA_event saas_business]
    by (auto simp: relevance_day89_scenarioA)
  obtain m' where m': "fst (mapEventToBusiness clock_day89 0 scenarioA_event saas_business) = Some m'"
    and path: "cm_causalPath m' = cr_getCausalPath (getCausalRule LABOR_MARKET)
                 (ev_summary scenarioA_event)
                 (buildBusinessContext saas_business (cr_affectedDrivers (getCausalRule LABOR_MARKET)))"
    and assumptions: "cm_assumptions m' = getAssumptionsForEventType LABOR_MARKET"
    using mapEventToBusiness_relevant [of clock_day89 0 scenarioA_event saas_business]
    by (auto simp: relevance_day89_scenarioA scenarioA_fields)
  from m m' have "m' = m" by simp
  have steps: "map st_confidence (cm_causalPath m) = [0.9, 0.85, 0.8]"
    using path unfolding \<open>m' = m\<close> by (simp add: getCausalRule_def)
  have count: "length (cm_assumptions m) = 3"
    using assumptions unfolding \<open>m' = m\<close> by (simp add: labor_assumptions_length)
  have "cm_confidenceScore m = 0.4906071225"
    unfolding score steps count
    by (simp add: scenarioA_facts scenarioA_fields isHighConfidenceRule_def getCausalRule_def
          power3_eq_cube)
  with m show ?thesis by blast
qed

text \<open>
  C7, as the code has it. The mapping depends on the wall clock besides its two arguments,
  and on nothing else: two calls on the same event and business model return the same
  mapping whenever their first clock readings give the same recency verdict and, if that
  verdict is negative, their second readings give the same age in whole days.
\<close>

theorem mapEventToBusiness_clock_dependence:
  assumes "fst (isRecent clk k e 90) = fst (isRecent clk' k' e 90)"
      and "\<not> fst (isRecent clk k e 90) \<Longrightarrow>
             fst (getAgeInDays clk (Suc k) e) = fst (getAgeInDays clk' (Suc k') e)"
  shows "fst (mapEventToBusiness clk k e bm) = fst (mapEventToBusiness clk' k' e bm)"
proof (rule mapEventToBusiness_cong)
  from assms show "fst (checkRelevance clk k e bm) = fst (checkRelevance clk' k' e bm)"
    by (simp add: checkRelevance_eq isRecent_eq getAgeInDays_eq)
qed

theorem mapEventToBusiness_within_window:
  "fst (isRecent clock_day10 0 scenarioA_event 90)
   \<and> fst (isRecent clock_day89 5 scenarioA_event 90)
   \<and> fst (mapEventToBusiness clock_day10 0 scenarioA_event saas_business)
       = fst (mapEventToBusiness clock_day89 5 scenarioA_event saas_business)"
proof -
  have a: "fst (isRecent clock_day10 0 scenarioA_event 90)"
    and b: "fst (isRecent clock_day89 5 scenarioA_event 90)"
    by (simp_all add: isRecent_eq clock_day10_def clock_day89_def scenarioA_fields)
  from a b show ?thesis
    using mapEventToBusiness_clock_dependence
      [of clock_day10 0 scenarioA_event clock_day89 5 saas_business]
    by simp
qed

text \<open>C7 as stated (the output is a function of the event and the business model alone)
  fails: the Scenario A pair maps to a relevant mapping on day 89 and to the null mapping
  on day 91.\<close>

theorem mapEventToBusiness_depends_on_clock:
  "fst (mapEventToBusiness clock_day89 0 scenarioA_event saas_business)
     \<noteq> fst (mapEventToBusiness clock_day91 0 scenarioA_event saas_business)"
proof -
  have "\<not> rel_isRelevant (fst (checkRelevance clock_day91 0 scenarioA_event saas_business))"
    by (simp add: checkRelevance_eq scenarioA_fields scenarioA_facts saas_business_regions
          clock_day91_def)
  from mapEventToBusiness_irrelevant [OF this]
  have "\<exists>m. fst (mapEventToBusiness clock_day91 0 scenarioA_event saas_business) = Some m
          \<and> \<not> cm_isRelevant m"
    by simp
  moreover have "\<exists>m. fst (mapEventToBusiness clock_day89 0 scenarioA_event saas_business) = Some m
          \<and> cm_isRelevant m"
    using mapEventToBusiness_relevant [of clock_day89 0 scenarioA_event saas_business]
    by (auto simp: relevance_day89_scenarioA)
  ultimately show ?thesis by auto
qed


section \<open>The batch entry point\<close>

lemma batchLoop_fst:
  "fst (batchLoop clk k bm acc es) =
     acc @ filter cm_isRelevant (List.map_filter (\<lambda>r. r) (mapEveryEvent clk k bm es))"
proof (induction es arbitrary: k acc)
  case Nil
  then show ?case by (simp add: List.map_filter_def)
next
  case (Cons e es)
  show ?case
    by (cases "fst (mapEventToBusiness clk k e bm)")
       (simp_all add: split_beta Cons.IH List.map_filter_def)
qed

text \<open>
  C5. The result of \<open>batchMapEventsToBusiness\<close> consists of exactly the mappings of the
  events whose \<open>isRelevant\<close> flag is true, each as often as it was produced, in descending
  order of confidence score times magnitude weight, where the weight of HIGH is 3, that of
  MEDIUM is 2 and that of LOW is 1 (these are the values of \<open>getMagnitudeWeight\<close>); if the
  products are pairwise distinct the order is strictly descending.
\<close>

theorem batchMapEventsToBusiness_ranked:
  fixes clk :: clock and k :: nat and events :: "Event list" and bm :: BusinessModel
  defines "magnitudeWeight \<equiv> \<lambda>magnitude. case magnitude of HIGH \<Rightarrow> 3 | MEDIUM \<Rightarrow> 2 | LOW \<Rightarrow> (1::real)"
  defines "score \<equiv> \<lambda>m. cm_confidenceScore m * magnitudeWeight (cm_impactMagnitude m)"
  defines "out \<equiv> fst (batchMapEventsToBusiness clk k events bm)"
  shows "mset out = mset (filter cm_isRelevant (List.map_filter (\<lambda>r. r) (mapEveryEvent clk k bm events)))
       \<and> sorted_wrt (\<lambda>a b. score a \<ge> score b) out
       \<and> (distinct (map score out) \<longrightarrow> sorted_wrt (\<lambda>a b. score a > score b) out)
       \<and> getMagnitudeWeight HIGH = 3 \<and> getMagnitudeWeight MEDIUM = 2 \<and> getMagnitudeWeight LOW = 1"
proof -
  let ?cmp = "\<lambda>a b.
            (let scoreA = cm_confidenceScore a * getMagnitudeWeight (cm_impactMagnitude a);
                 scoreB = cm_confidenceScore b * getMagnitudeWeight (cm_impactMagnitude b)
             in scoreB - scoreA)"
  have weight: "getMagnitudeWeight magnitude = magnitudeWeight magnitude" for magnitude
    by (cases magnitude) (simp_all add: magnitudeWeight_def)
  have out: "out = Array_sort ?cmp (fst (batchLoop clk k bm [] events))"
    by (simp add: out_def batchMapEventsToBusiness_def split_beta)
  have cmp: "\<And>a b. ?cmp a b = score b - score a"
    by (simp add: score_def weight)
  have 1: "mset out = mset (filter cm_isRelevant (List.map_filter (\<lambda>r. r) (mapEveryEvent clk k bm events)))"
    unfolding out by (simp add: mset_Array_sort batchLoop_fst)
  have 2: "sorted_wrt (\<lambda>a b. score a \<ge> score b) out"
    unfolding out by (rule sorted_Array_sort [OF cmp])
  from 1 2 show ?thesis
    by (simp add: sorted_distinct_strict)
qed

text \<open>In the example batch the weights decide the order: the three relevant mappings come
  out as HIGH, MEDIUM, LOW, although the LOW one has the largest confidence score and the
  HIGH and MEDIUM ones the smaller ones; the event of the foreign region is dropped.\<close>

theorem batchMapEventsToBusiness_example:
  "map (ev_id \<circ> cm_event) (fst (batchMapEventsToBusiness clock_day89 0 batch_events ranking_business))
     = [''event-4'', ''event-3'', ''event-1'']
   \<and> map cm_impactMagnitude (fst (batchMapEventsToBusiness clock_day89 0 batch_events ranking_business))
     = [HIGH, MEDIUM, LOW]
   \<and> cm_confidenceScore (fst (batchMapEventsToBusiness clock_day89 0 batch_events ranking_business) ! 0)
     < cm_confidenceScore (fst (batchMapEventsToBusiness clock_day89 0 batch_events ranking_business) ! 2)
   \<and> cm_confidenceScore (fst (batchMapEventsToBusiness clock_day89 0 batch_events ranking_business) ! 1)
     < cm_confidenceScore (fst (batchMapEventsToBusiness clock_day89 0 batch_events ranking_business) ! 2)
   \<and> sorted_wrt (\<lambda>a b.
          cm_confidenceScore a * (case cm_impactMagnitude a of HIGH \<Rightarrow> 3 | MEDIUM \<Rightarrow> 2 | LOW \<Rightarrow> 1)
        > cm_confidenceScore b * (case cm_impactMagnitude b of HIGH \<Rightarrow> 3 | MEDIUM \<Rightarrow> 2 | LOW \<Rightarrow> 1))
       (fst (batchMapEventsToBusiness clock_day89 0 batch_events ranking_business))"
proof -
  have ids: "map (ev_id \<circ> cm_event)
      (fst (batchMapEventsToBusiness clock_day89 0 batch_events ranking_business))
        = [''event-4'', ''event-3'', ''event-1'']"
    by code_simp
  have magnitudes: "map cm_impactMagnitude
      (fst (batchMapEventsToBusiness clock_day89 0 batch_events ranking_business))
        = [HIGH, MEDIUM, LOW]"
    by code_simp
  have c02: "cm_confidenceScore (fst (batchMapEventsToBusiness clock_day89 0 batch_events ranking_business) ! 0)
     < cm_confidenceScore (fst (batchMapEventsToBusiness clock_day89 0 batch_events ranking_business) ! 2)"
    by code_simp
  have c12: "cm_confidenceScore (fst (batchMapEventsToBusiness clock_day89 0 batch_events ranking_business) ! 1)
     < cm_confidenceScore (fst (batchMapEventsToBusiness clock_day89 0 batch_events ranking_business) ! 2)"
    by code_simp
  have d: "distinct (map (\<lambda>m. cm_confidenceScore m
        * (case cm_impactMagnitude m of HIGH \<Rightarrow> 3 | MEDIUM \<Rightarrow> 2 | LOW \<Rightarrow> (1::real)))
      (fst (batchMapEventsToBusiness clock_day89 0 batch_events ranking_business)))"
    by code_simp
  from d ids magnitudes c02 c12 show ?thesis
    using batchMapEventsToBusiness_ranked [of clock_day89 0 batch_events ranking_business]
    by simp
qed

end
